theory Spec2Isabelle
  imports Main "HOL-Library.Word"
begin

section \<open>Strings\<close>

text \<open>
  A JavaScript string is a sequence of 16-bit code units. \<open>ascii\<close> embeds a literal
  written in ASCII; text outside ASCII (the page is in Russian) is written as its code
  units, with the words transliterated beside it.
\<close>

type_synonym code_unit = "16 word"
type_synonym jstring = "code_unit list"

definition ascii :: "string \<Rightarrow> jstring" where
  "ascii s = map (\<lambda>c. of_char c) s"

text \<open>
  \<open>String.prototype.replace\<close> with a global one-character pattern and a replacement
  that holds no \<open>$\<close>: every occurrence of the code unit is replaced, left to right.
\<close>

definition replace_all :: "code_unit \<Rightarrow> jstring \<Rightarrow> jstring \<Rightarrow> jstring" where
  "replace_all c r s = concat (map (\<lambda>x. if x = c then r else [x]) s)"

text \<open>
  \<open>String.prototype.trim\<close> removes the code units of WhiteSpace and LineTerminator
  (ECMAScript 12.2 and 12.3) from both ends: tab, LF, VT, FF, CR, space, no-break space,
  U+1680, U+2000 to U+200A, U+2028, U+2029, U+202F, U+205F, U+3000 and U+FEFF.
\<close>

definition isWhiteSpace :: "code_unit \<Rightarrow> bool" where
  "isWhiteSpace c =
     (c = 0x09 \<or> c = 0x0A \<or> c = 0x0B \<or> c = 0x0C \<or> c = 0x0D \<or> c = 0x20 \<or> c = 0xA0 \<or>
      c = 0x1680 \<or> (0x2000 \<le> c \<and> c \<le> 0x200A) \<or> c = 0x2028 \<or> c = 0x2029 \<or>
      c = 0x202F \<or> c = 0x205F \<or> c = 0x3000 \<or> c = 0xFEFF)"

definition trim :: "jstring \<Rightarrow> jstring" where
  "trim s = rev (dropWhile isWhiteSpace (rev (dropWhile isWhiteSpace s)))"

text \<open>
  \<open>String.prototype.toLowerCase\<close>, on the letters A to Z. Its only argument in the
  source is a label, one of the literals URL, Title, Description and Keywords; the case
  mapping of Unicode outside ASCII is not modelled, such code units are kept.
\<close>

definition toLowerCase :: "jstring \<Rightarrow> jstring" where
  "toLowerCase s = map (\<lambda>c. if 0x41 \<le> c \<and> c \<le> 0x5A then c + 0x20 else c) s"

text \<open>\<open>Array.prototype.join\<close> with the separator \<open>,\<close> on strings.\<close>

fun join_comma :: "jstring list \<Rightarrow> jstring" where
  "join_comma [] = []"
| "join_comma [s] = s"
| "join_comma (s # t # ss) = s @ 0x2C # join_comma (t # ss)"

section \<open>Values, exceptions and the engine\<close>

text \<open>
  The values \<open>JSON.parse\<close> can return, and \<open>undefined\<close>, which reading an absent
  property gives. A number is carried by the text \<open>Number.prototype.toString\<close> prints
  for it; an object by its own properties in insertion order, each key once.
\<close>

datatype jsval =
    JUndefined
  | JNull
  | JBool bool
  | JNum jstring
  | JStr jstring
  | JArr "jsval list"
  | JObj "(jstring \<times> jsval) list"

text \<open>
  The TypeErrors the engine raises in this program: a property read on \<open>null\<close> or
  \<open>undefined\<close>, a call of a property that is no function, and a conversion of an
  object to a primitive that finds no callable \<open>valueOf\<close> or \<open>toString\<close>.
\<close>

datatype type_error =
    Nullish_Property jsval jstring
  | Not_Callable jsval jstring
  | No_Primitive jsval

text \<open>
  What a \<open>catch\<close> can receive: the SyntaxError of \<open>JSON.parse\<close> with its message, a
  TypeError of the engine, an \<open>Error\<close> object of the service client with its message,
  or any other value a promise was rejected with.
\<close>

datatype thrown =
    SyntaxError jstring
  | TypeError type_error
  | Error_Object jstring
  | Thrown_Value jsval

text \<open>
  The wording of a TypeError's message and the source text
  \<open>Function.prototype.toString\<close> prints for a built-in function are chosen by the
  engine, the message of the error the client library raises for a missing key by the
  library; the model takes them as parameters.
\<close>

record engine =
  type_error_message :: "type_error \<Rightarrow> jstring"
  native_source :: "jstring \<Rightarrow> jstring"
  missing_key_message :: jstring

definition and_then :: "'e + 'a \<Rightarrow> ('a \<Rightarrow> 'e + 'b) \<Rightarrow> 'e + 'b" where
  "and_then r f = (case r of Inl e \<Rightarrow> Inl e | Inr x \<Rightarrow> f x)"

text \<open>
  Reading the property \<open>key\<close> of a value: on \<open>null\<close> and \<open>undefined\<close> a TypeError, on
  an object its own property or \<open>undefined\<close>, on anything else \<open>undefined\<close>. The
  program reads \<open>url\<close>, \<open>title\<close>, \<open>description\<close>, \<open>keywords\<close> and \<open>message\<close> this
  way; none of them is a property of a built-in prototype, an array index or \<open>length\<close>.
\<close>

definition getProperty :: "jsval \<Rightarrow> jstring \<Rightarrow> type_error + jsval" where
  "getProperty v key =
     (case v of
        JUndefined \<Rightarrow> Inl (Nullish_Property v key)
      | JNull \<Rightarrow> Inl (Nullish_Property v key)
      | JObj kvs \<Rightarrow> (case map_of kvs key of Some x \<Rightarrow> Inr x | None \<Rightarrow> Inr JUndefined)
      | _ \<Rightarrow> Inr JUndefined)"

text \<open>
  ToString, as the operator \<open>+\<close> with a string operand and a template literal apply it.
  An array is joined with commas, \<open>null\<close> and \<open>undefined\<close> elements giving the empty
  string. An object of \<open>JSON.parse\<close> inherits \<open>Object.prototype.toString\<close> and prints
  as \<open>[object Object]\<close>, unless it has an own property \<open>toString\<close>: that is no
  function, the inherited \<open>valueOf\<close> returns the object, and the conversion raises.
\<close>

fun to_string :: "jsval \<Rightarrow> type_error + jstring"
  and elements_to_strings :: "jsval list \<Rightarrow> type_error + jstring list" where
  "to_string JUndefined = Inr (ascii ''undefined'')"
| "to_string JNull = Inr (ascii ''null'')"
| "to_string (JBool b) = Inr (if b then ascii ''true'' else ascii ''false'')"
| "to_string (JNum r) = Inr r"
| "to_string (JStr s) = Inr s"
| "to_string (JArr xs) =
     (case elements_to_strings xs of Inl e \<Rightarrow> Inl e | Inr ss \<Rightarrow> Inr (join_comma ss))"
| "to_string (JObj kvs) =
     (case map_of kvs (ascii ''toString'') of
        Some x \<Rightarrow> Inl (No_Primitive (JObj kvs))
      | None \<Rightarrow> Inr (ascii ''[object Object]''))"
| "elements_to_strings [] = Inr []"
| "elements_to_strings (x # xs) =
     (case (if x = JUndefined \<or> x = JNull then Inr [] else to_string x) of
        Inl e \<Rightarrow> Inl e
      | Inr s \<Rightarrow> (case elements_to_strings xs of Inl e \<Rightarrow> Inl e | Inr ss \<Rightarrow> Inr (s # ss)))"

text \<open>
  The text of \<open>error.message\<close> inside a template literal. An error object has a string
  message; any other thrown value is read like every value.
\<close>

definition message_text :: "engine \<Rightarrow> thrown \<Rightarrow> type_error + jstring" where
  "message_text eng error =
     (case error of
        SyntaxError m \<Rightarrow> Inr m
      | TypeError e \<Rightarrow> Inr (type_error_message eng e)
      | Error_Object m \<Rightarrow> Inr m
      | Thrown_Value v \<Rightarrow> and_then (getProperty v (ascii ''message'')) to_string)"

section \<open>The page\<close>

text \<open>
  The elements the script holds, with the properties it reads or writes. \<open>hidden\<close> is
  membership of the class \<open>hidden\<close> in the element's class list. \<open>copy_buttons\<close> are
  the buttons of the results container that carry the click listener of
  \<open>displayResults\<close>, in document order; \<open>generation\<close> counts the assignments to the
  container's \<open>innerHTML\<close>, each of which replaces its elements. \<open>requests\<close>,
  \<open>console\<close> and \<open>clipboard\<close> record the calls of \<open>generateContent\<close>, of
  \<open>console.error\<close> and the texts written to the clipboard, oldest first; \<open>timers\<close>
  are the pending label timers, each with the generation and index of its button.
  The resizing and selection of the text areas change nothing the claims speak of and
  are left out.
\<close>

record copy_button =
  copycontent :: jstring
  textContent :: jstring

record request =
  model :: jstring
  contents :: jstring
  systemInstruction :: jstring
  responseMimeType :: jstring

record page =
  apiKeyError_innerHTML :: jstring
  apiKeyError_hidden :: bool
  formFieldset_disabled :: bool
  generateButton_disabled :: bool
  loadingSpinner_hidden :: bool
  resultsContainer_hidden :: bool
  resultsContainer_innerHTML :: jstring
  copy_buttons :: "copy_button list"
  generation :: nat
  timers :: "(nat \<times> nat) list"
  requests :: "request list"
  console :: "thrown list"
  clipboard :: "jstring list"

section \<open>Startup\<close>

text \<open>
  The module's top level. Line 13 constructs the client of \<open>@google/genai\<close> with
  \<open>process.env.API_KEY\<close>, a string or \<open>undefined\<close>, before anything else. The
  library is not part of this program; its build for the browser raises an \<open>Error\<close>
  when the key is \<open>null\<close> or \<open>undefined\<close>, and constructs the client for every
  string, the empty one included.
\<close>

definition GoogleGenAI_constructor :: "engine \<Rightarrow> jstring option \<Rightarrow> thrown option" where
  "GoogleGenAI_constructor eng apiKey =
     (case apiKey of
        None \<Rightarrow> Some (Error_Object (missing_key_message eng))
      | Some key \<Rightarrow> None)"

text \<open>
  Lines 55 to 61. \<open>!API_KEY\<close> holds for \<open>undefined\<close> and for the empty string. The
  message reads "Oshibka konfiguratsii: API-klyuch ne naiden. Pozhaluista, ubedites',
  chto peremennaya okruzheniya API_KEY pravil'no ustanovlena v nastroikakh vashego
  proekta na Vercel."
\<close>

definition config_error_html :: jstring where
  "config_error_html =
    ascii ''<p><strong>'' @
    [0x41E, 0x448, 0x438, 0x431, 0x43A, 0x430, 0x20, 0x43A, 0x43E, 0x43D, 0x444, 0x438, 0x433,
     0x443, 0x440, 0x430, 0x446, 0x438, 0x438] @
    ascii '':</strong> API-'' @
    [0x43A, 0x43B, 0x44E, 0x447, 0x20, 0x43D, 0x435, 0x20, 0x43D, 0x430, 0x439, 0x434, 0x435,
     0x43D] @
    ascii ''.</p>\<newline>    <p>'' @
    [0x41F, 0x43E, 0x436, 0x430, 0x43B, 0x443, 0x439, 0x441, 0x442, 0x430, 0x2C, 0x20, 0x443,
     0x431, 0x435, 0x434, 0x438, 0x442, 0x435, 0x441, 0x44C, 0x2C, 0x20, 0x447, 0x442, 0x43E,
     0x20, 0x43F, 0x435, 0x440, 0x435, 0x43C, 0x435, 0x43D, 0x43D, 0x430, 0x44F, 0x20, 0x43E,
     0x43A, 0x440, 0x443, 0x436, 0x435, 0x43D, 0x438, 0x44F] @
    ascii '' <code>API_KEY</code> '' @
    [0x43F, 0x440, 0x430, 0x432, 0x438, 0x43B, 0x44C, 0x43D, 0x43E, 0x20, 0x443, 0x441, 0x442,
     0x430, 0x43D, 0x43E, 0x432, 0x43B, 0x435, 0x43D, 0x430, 0x20, 0x432, 0x20, 0x43D, 0x430,
     0x441, 0x442, 0x440, 0x43E, 0x439, 0x43A, 0x430, 0x445, 0x20, 0x432, 0x430, 0x448, 0x435,
     0x433, 0x43E, 0x20, 0x43F, 0x440, 0x43E, 0x435, 0x43A, 0x442, 0x430, 0x20, 0x43D, 0x430] @
    ascii '' Vercel.</p>''"

definition api_key_check :: "jstring option \<Rightarrow> page \<Rightarrow> page" where
  "api_key_check API_KEY st =
     (if API_KEY = None \<or> API_KEY = Some [] then
        st\<lparr>apiKeyError_innerHTML := config_error_html,
           apiKeyError_hidden := False,
           formFieldset_disabled := True\<rparr>
      else st)"

text \<open>
  The statements of the top level in their order: the constructor of line 13, the check
  of line 56, the registration of the submit listener of line 63. An exception of the
  constructor ends the module there, so neither the check nor the registration runs.
  \<open>startup\<close> returns the page and that exception, if any.
\<close>

definition startup :: "engine \<Rightarrow> jstring option \<Rightarrow> page \<Rightarrow> page \<times> thrown option" where
  "startup eng API_KEY st =
     (case GoogleGenAI_constructor eng API_KEY of
        Some error \<Rightarrow> (st, Some error)
      | None \<Rightarrow> (api_key_check API_KEY st, None))"

section \<open>createResultItem\<close>

text \<open>
  The five passes of the escaping, in the order of the source:
  \<^verbatim>\<open>content.replace(/&/g, '&amp;').replace(/</g, '&lt;').replace(/>/g, '&gt;')
         .replace(/"/g, '&quot;').replace(/'/g, '&#039;')\<close>
\<close>

definition escapedContent :: "jstring \<Rightarrow> jstring" where
  "escapedContent content =
     replace_all 0x27 (ascii ''&#039;'')
       (replace_all 0x22 (ascii ''&quot;'')
         (replace_all 0x3E (ascii ''&gt;'')
           (replace_all 0x3C (ascii ''&lt;'')
             (replace_all 0x26 (ascii ''&amp;'') content))))"

text \<open>
  What the specification asks of the escaping, one code unit at a time: the five reserved
  characters become their references, any other code unit stays as it is.
\<close>

definition reserved_reference :: "code_unit \<Rightarrow> jstring" where
  "reserved_reference c =
     (if c = 0x26 then ascii ''&amp;''
      else if c = 0x3C then ascii ''&lt;''
      else if c = 0x3E then ascii ''&gt;''
      else if c = 0x22 then ascii ''&quot;''
      else if c = 0x27 then ascii ''&#039;''
      else [c])"

text \<open>
  \<open>content.replace\<close> is a function only on a string: on \<open>undefined\<close> and \<open>null\<close> the
  property read raises, on any other value the call does (a value of \<open>JSON.parse\<close> has
  no callable property).
\<close>

definition replace_receiver :: "jsval \<Rightarrow> type_error + jstring" where
  "replace_receiver content =
     (case content of
        JStr s \<Rightarrow> Inr s
      | JUndefined \<Rightarrow> Inl (Nullish_Property content (ascii ''replace''))
      | JNull \<Rightarrow> Inl (Nullish_Property content (ascii ''replace''))
      | _ \<Rightarrow> Inl (Not_Callable content (ascii ''replace'')))"

text \<open>The button's label, "Kopirovat'" (copy), and its confirmation "Skopirovano!".\<close>

definition label_copy :: jstring where
  "label_copy =
    [0x41A, 0x43E, 0x43F, 0x438, 0x440, 0x43E, 0x432, 0x430, 0x442, 0x44C]"

definition label_copied :: jstring where
  "label_copied =
    [0x421, 0x43A, 0x43E, 0x43F, 0x438, 0x440, 0x43E, 0x432, 0x430, 0x43D, 0x43E, 0x21]"

text \<open>
  The markup of one item, the template literal of lines 184 to 192. \<open>copy_attribute\<close>
  is the text the markup holds between the quotes of \<open>data-copycontent\<close>, kept beside
  the markup so that the page need not search for it.
\<close>

record result_item =
  markup :: jstring
  copy_attribute :: jstring

definition item_markup :: "jstring \<Rightarrow> jstring \<Rightarrow> jstring" where
  "item_markup label escaped =
     ascii ''\<newline>    <div class=\"result-item\" id=\"result-item-'' @ toLowerCase label @
     ascii ''\">\<newline>      <div class=\"result-item-header\">\<newline>        <h3>'' @ label @
     ascii ''</h3>\<newline>        <button class=\"copy-button\" data-copycontent=\"'' @ escaped @
     ascii ''\">'' @ label_copy @
     ascii ''</button>\<newline>      </div>\<newline>      <textarea readonly class=\"result-content\">'' @
     escaped @
     ascii ''</textarea>\<newline>    </div>\<newline>  ''"

definition createResultItem :: "jstring \<Rightarrow> jsval \<Rightarrow> type_error + result_item" where
  "createResultItem label content =
     and_then (replace_receiver content) (\<lambda>s.
       Inr \<lparr>markup = item_markup label (escapedContent s),
            copy_attribute = escapedContent s\<rparr>)"

section \<open>The browser's reading of the attribute\<close>

text \<open>
  Assigning \<open>innerHTML\<close> runs the HTML parser on the markup. It first replaces CR LF
  and a lone CR by LF (HTML Standard, preprocessing the input stream). In the state
  "attribute value (double-quoted)" it ends the value at the next double quote, appends
  U+FFFD for U+0000, and resolves a character reference after \<open>&\<close>. Of the references
  only the five that \<open>escapedContent\<close> writes are modelled; any other \<open>&\<close> is kept as
  it stands.
\<close>

fun normalize_newlines :: "jstring \<Rightarrow> jstring" where
  "normalize_newlines [] = []"
| "normalize_newlines [c] = (if c = 0x0D then [0x0A] else [c])"
| "normalize_newlines (c # d # s) =
     (if c = 0x0D then
        (if d = 0x0A then 0x0A # normalize_newlines s
         else 0x0A # normalize_newlines (d # s))
      else c # normalize_newlines (d # s))"

fun starts_with :: "jstring \<Rightarrow> jstring \<Rightarrow> bool" where
  "starts_with [] s = True"
| "starts_with (p # ps) [] = False"
| "starts_with (p # ps) (c # s) = (p = c \<and> starts_with ps s)"

function attribute_value :: "jstring \<Rightarrow> jstring" where
  "attribute_value [] = []"
| "attribute_value (c # s) =
     (if c = 0x22 then []
      else if c = 0 then 0xFFFD # attribute_value s
      else if c = 0x26 then
        (if starts_with (ascii ''amp;'') s then 0x26 # attribute_value (drop 4 s)
         else if starts_with (ascii ''lt;'') s then 0x3C # attribute_value (drop 3 s)
         else if starts_with (ascii ''gt;'') s then 0x3E # attribute_value (drop 3 s)
         else if starts_with (ascii ''quot;'') s then 0x22 # attribute_value (drop 5 s)
         else if starts_with (ascii ''#039;'') s then 0x27 # attribute_value (drop 5 s)
         else 0x26 # attribute_value s)
      else c # attribute_value s)"
  by pat_completeness auto
termination
  by (relation "measure length") auto

definition dataset_copycontent :: "jstring \<Rightarrow> jstring" where
  "dataset_copycontent attribute = attribute_value (normalize_newlines attribute)"

section \<open>displayResults\<close>

text \<open>
  The table of lines 125 to 130. Its keys are "napravlenie" (direction), "usluga"
  (service), "zabolevanie" (disease) and "stat'ya" (article).
\<close>

definition napravlenie :: jstring where
  "napravlenie =
    [0x43D, 0x430, 0x43F, 0x440, 0x430, 0x432, 0x43B, 0x435, 0x43D, 0x438, 0x435]"

definition usluga :: jstring where
  "usluga =
    [0x443, 0x441, 0x43B, 0x443, 0x433, 0x430]"

definition zabolevanie :: jstring where
  "zabolevanie =
    [0x437, 0x430, 0x431, 0x43E, 0x43B, 0x435, 0x432, 0x430, 0x43D, 0x438, 0x435]"

definition statya :: jstring where
  "statya =
    [0x441, 0x442, 0x430, 0x442, 0x44C, 0x44F]"

definition urlPrefixes :: "(jstring \<times> jstring) list" where
  "urlPrefixes =
     [(napravlenie, ascii ''https://www.emcmos.ru/directions/''),
      (usluga, ascii ''https://www.emcmos.ru/programs_and_services/services/''),
      (zabolevanie, ascii ''https://www.emcmos.ru/disease/''),
      (statya, ascii ''https://www.emcmos.ru/articles/'')]"

text \<open>
  \<open>urlPrefixes[articleType]\<close> reads a property of an object literal: an own property
  first, then those of \<open>Object.prototype\<close>, which the literal inherits. These are the
  accessor \<open>__proto__\<close>, which returns \<open>Object.prototype\<close> itself, and eleven
  functions.
\<close>

definition object_prototype_functions :: "jstring list" where
  "object_prototype_functions =
     [ascii ''constructor'', ascii ''hasOwnProperty'', ascii ''isPrototypeOf'',
      ascii ''propertyIsEnumerable'', ascii ''toLocaleString'', ascii ''toString'',
      ascii ''valueOf'', ascii ''__defineGetter__'', ascii ''__defineSetter__'',
      ascii ''__lookupGetter__'', ascii ''__lookupSetter__'']"

datatype looked_up =
    Own_Prefix jstring
  | Inherited_Function jstring
  | Inherited_Prototype
  | Not_Found

definition urlPrefixes_get :: "jstring \<Rightarrow> looked_up" where
  "urlPrefixes_get articleType =
     (case map_of urlPrefixes articleType of
        Some p \<Rightarrow> Own_Prefix p
      | None \<Rightarrow>
          if articleType = ascii ''__proto__'' then Inherited_Prototype
          else if articleType \<in> set object_prototype_functions
            then Inherited_Function articleType
          else Not_Found)"

text \<open>
  The left operand of the concatenation, \<open>urlPrefixes[articleType] || ''\<close>, as the
  string \<open>+\<close> makes of it: a non-empty prefix is itself, an empty one and \<open>undefined\<close>
  give the empty string, a function and an object are truthy and are converted to
  their text.
\<close>

definition prefix_text :: "engine \<Rightarrow> looked_up \<Rightarrow> jstring" where
  "prefix_text eng r =
     (case r of
        Own_Prefix p \<Rightarrow> (if p = [] then [] else p)
      | Inherited_Function f \<Rightarrow> native_source eng f
      | Inherited_Prototype \<Rightarrow> ascii ''[object Object]''
      | Not_Found \<Rightarrow> [])"

text \<open>Line 131: \<open>(urlPrefixes[articleType] || '') + data.url\<close>.\<close>

definition fullUrl :: "engine \<Rightarrow> jsval \<Rightarrow> jstring \<Rightarrow> type_error + jstring" where
  "fullUrl eng data articleType =
     and_then (getProperty data (ascii ''url'')) (\<lambda>u.
     and_then (to_string u) (\<lambda>slug.
       Inr (prefix_text eng (urlPrefixes_get articleType) @ slug)))"

text \<open>
  The buttons the parser builds from the assigned markup, one for each item, with the
  listener attached.
\<close>

definition rendered_button :: "result_item \<Rightarrow> copy_button" where
  "rendered_button item =
     \<lparr>copycontent = dataset_copycontent (copy_attribute item), textContent = label_copy\<rparr>"

text \<open>
  Lines 131 to 153. The template literal evaluates its four calls in order before the
  assignment, so an exception in one of them leaves the container as it was.
\<close>

definition displayResults :: "engine \<Rightarrow> jsval \<Rightarrow> jstring \<Rightarrow> page \<Rightarrow> type_error + page" where
  "displayResults eng data articleType st =
     and_then (fullUrl eng data articleType) (\<lambda>url.
     and_then (createResultItem (ascii ''URL'') (JStr url)) (\<lambda>i1.
     and_then (getProperty data (ascii ''title'')) (\<lambda>t.
     and_then (createResultItem (ascii ''Title'') t) (\<lambda>i2.
     and_then (getProperty data (ascii ''description'')) (\<lambda>d.
     and_then (createResultItem (ascii ''Description'') d) (\<lambda>i3.
     and_then (getProperty data (ascii ''keywords'')) (\<lambda>k.
     and_then (createResultItem (ascii ''Keywords'') k) (\<lambda>i4.
       Inr (st\<lparr>resultsContainer_innerHTML :=
                  ascii ''\<newline>    '' @ markup i1 @ ascii ''\<newline>    '' @ markup i2 @
                  ascii ''\<newline>    '' @ markup i3 @ ascii ''\<newline>    '' @ markup i4 @
                  ascii ''\<newline>  '',
               copy_buttons := map rendered_button [i1, i2, i3, i4],
               generation := Suc (generation st)\<rparr>)))))))))"

section \<open>The copy button\<close>

text \<open>
  The click listener of lines 141 to 152 on the \<open>i\<close>-th button. \<open>granted\<close> tells
  whether the promise of \<open>navigator.clipboard.writeText\<close> is fulfilled; the callback
  of \<open>then\<close> runs only in that case. \<open>timer_fires\<close> is the callback of \<open>setTimeout\<close>
  for the \<open>n\<close>-th pending timer: it writes to the button it was set for, which is on
  the page only while the container has not been assigned since.
\<close>

definition click_copy :: "nat \<Rightarrow> bool \<Rightarrow> page \<Rightarrow> page" where
  "click_copy i granted st =
     (if i < length (copy_buttons st) then
        (let target = copy_buttons st ! i; content = copycontent target in
         if content \<noteq> [] then
           (if granted then
              st\<lparr>clipboard := clipboard st @ [content],
                 copy_buttons := (copy_buttons st)[i := target\<lparr>textContent := label_copied\<rparr>],
                 timers := timers st @ [(generation st, i)]\<rparr>
            else st)
         else st)
      else st)"

definition timer_fires :: "nat \<Rightarrow> page \<Rightarrow> page" where
  "timer_fires n st =
     (if n < length (timers st) then
        (let (g, i) = timers st ! n;
             st1 = st\<lparr>timers := take n (timers st) @ drop (Suc n) (timers st)\<rparr> in
         if g = generation st \<and> i < length (copy_buttons st) then
           st1\<lparr>copy_buttons :=
                 (copy_buttons st)[i := (copy_buttons st ! i)\<lparr>textContent := label_copy\<rparr>]\<rparr>
         else st1)
      else st)"

section \<open>The submit handler\<close>

text \<open>
  The two system instructions of lines 85 and 88: the first is for the commercial pages
  ("... kachestvennye i prodayushchie SEO-dannye dlya kommercheskikh stranits ..."), the
  second for the informational ones ("... kachestvennye i informativnye SEO-dannye dlya
  informatsionnykh stranits ...").
\<close>

definition commercial_instruction :: jstring where
  "commercial_instruction =
    [0x422, 0x44B, 0x20, 0x2014] @
    ascii '' SEO-'' @
    [0x44D, 0x43A, 0x441, 0x43F, 0x435, 0x440, 0x442, 0x2E, 0x20, 0x422, 0x432, 0x43E, 0x44F,
     0x20, 0x437, 0x430, 0x434, 0x430, 0x447, 0x430, 0x20, 0x2014, 0x20, 0x441, 0x43E, 0x437,
     0x434, 0x430, 0x432, 0x430, 0x442, 0x44C, 0x20, 0x43A, 0x430, 0x447, 0x435, 0x441, 0x442,
     0x432, 0x435, 0x43D, 0x43D, 0x44B, 0x435, 0x20, 0x438, 0x20, 0x43F, 0x440, 0x43E, 0x434,
     0x430, 0x44E, 0x449, 0x438, 0x435] @
    ascii '' SEO-'' @
    [0x434, 0x430, 0x43D, 0x43D, 0x44B, 0x435, 0x20, 0x434, 0x43B, 0x44F, 0x20, 0x43A, 0x43E,
     0x43C, 0x43C, 0x435, 0x440, 0x447, 0x435, 0x441, 0x43A, 0x438, 0x445, 0x20, 0x441, 0x442,
     0x440, 0x430, 0x43D, 0x438, 0x446, 0x20, 0x441, 0x430, 0x439, 0x442, 0x430, 0x20, 0x43C,
     0x435, 0x434, 0x438, 0x446, 0x438, 0x43D, 0x441, 0x43A, 0x43E, 0x439, 0x20, 0x43A, 0x43B,
     0x438, 0x43D, 0x438, 0x43A, 0x438, 0x20, 0x28, 0x43D, 0x430, 0x43F, 0x440, 0x430, 0x432,
     0x43B, 0x435, 0x43D, 0x438, 0x44F, 0x20, 0x438, 0x20, 0x443, 0x441, 0x43B, 0x443, 0x433,
     0x438, 0x29, 0x2E, 0x20, 0x412, 0x43C, 0x435, 0x441, 0x442, 0x43E, 0x20, 0x43D, 0x430,
     0x437, 0x432, 0x430, 0x43D, 0x438, 0x44F, 0x20, 0x43A, 0x43E, 0x43D, 0x43A, 0x440, 0x435,
     0x442, 0x43D, 0x43E, 0x439, 0x20, 0x43A, 0x43B, 0x438, 0x43D, 0x438, 0x43A, 0x438, 0x20,
     0x438, 0x441, 0x43F, 0x43E, 0x43B, 0x44C, 0x437, 0x443, 0x439, 0x20, 0x441, 0x43B, 0x43E,
     0x432, 0x43E, 0x20, 0x27, 0x43A, 0x43B, 0x438, 0x43D, 0x438, 0x43A, 0x430, 0x27, 0x20,
     0x28, 0x441, 0x20, 0x43C, 0x430, 0x43B, 0x435, 0x43D, 0x44C, 0x43A, 0x43E, 0x439, 0x20,
     0x431, 0x443, 0x43A, 0x432, 0x44B, 0x2C, 0x20, 0x435, 0x441, 0x43B, 0x438, 0x20, 0x44D,
     0x442, 0x43E, 0x20, 0x43D, 0x435, 0x20, 0x43D, 0x430, 0x447, 0x430, 0x43B, 0x43E, 0x20,
     0x43F, 0x440, 0x435, 0x434, 0x43B, 0x43E, 0x436, 0x435, 0x43D, 0x438, 0x44F, 0x29, 0x2E,
     0x20, 0x41F, 0x43E, 0x434, 0x447, 0x435, 0x440, 0x43A, 0x438, 0x432, 0x430, 0x439, 0x20,
     0x43F, 0x440, 0x435, 0x438, 0x43C, 0x443, 0x449, 0x435, 0x441, 0x442, 0x432, 0x430, 0x20,
     0x43B, 0x435, 0x447, 0x435, 0x43D, 0x438, 0x44F, 0x20, 0x432, 0x20, 0x43A, 0x43B, 0x438,
     0x43D, 0x438, 0x43A, 0x435, 0x2C, 0x20, 0x438, 0x441, 0x43F, 0x43E, 0x43B, 0x44C, 0x437,
     0x443, 0x439, 0x20, 0x43F, 0x440, 0x438, 0x437, 0x44B, 0x432, 0x44B, 0x20, 0x43A, 0x20,
     0x434, 0x435, 0x439, 0x441, 0x442, 0x432, 0x438, 0x44E, 0x20, 0x28, 0x43D, 0x430, 0x43F,
     0x440, 0x438, 0x43C, 0x435, 0x440, 0x2C, 0x20, 0x27, 0x437, 0x430, 0x43F, 0x438, 0x448,
     0x438, 0x442, 0x435, 0x441, 0x44C, 0x20, 0x43D, 0x430, 0x20, 0x43F, 0x440, 0x438, 0x435,
     0x43C, 0x27, 0x2C, 0x20, 0x27, 0x443, 0x437, 0x43D, 0x430, 0x439, 0x442, 0x435, 0x20,
     0x441, 0x442, 0x43E, 0x438, 0x43C, 0x43E, 0x441, 0x442, 0x44C, 0x27, 0x29, 0x2E, 0x20,
     0x421, 0x43B, 0x43E, 0x432, 0x43E, 0x20, 0x27, 0x43F, 0x43B, 0x430, 0x442, 0x43D, 0x43E,
     0x27, 0x20, 0x438, 0x441, 0x43F, 0x43E, 0x43B, 0x44C, 0x437, 0x443, 0x439, 0x20, 0x443,
     0x43C, 0x435, 0x440, 0x435, 0x43D, 0x43D, 0x43E, 0x2C, 0x20, 0x447, 0x442, 0x43E, 0x431,
     0x44B, 0x20, 0x443, 0x43A, 0x430, 0x437, 0x430, 0x442, 0x44C, 0x20, 0x43D, 0x430, 0x20,
     0x43A, 0x43E, 0x43C, 0x43C, 0x435, 0x440, 0x447, 0x435, 0x441, 0x43A, 0x438, 0x439, 0x20,
     0x445, 0x430, 0x440, 0x430, 0x43A, 0x442, 0x435, 0x440, 0x20, 0x443, 0x441, 0x43B, 0x443,
     0x433, 0x2E, 0x20, 0x423, 0x431, 0x435, 0x434, 0x438, 0x441, 0x44C, 0x2C, 0x20, 0x447,
     0x442, 0x43E] @
    ascii '' Title '' @
    [0x438] @
    ascii '' Description '' @
    [0x437, 0x432, 0x443, 0x447, 0x430, 0x442, 0x20, 0x43F, 0x440, 0x438, 0x432, 0x43B, 0x435,
     0x43A, 0x430, 0x442, 0x435, 0x43B, 0x44C, 0x43D, 0x43E, 0x20, 0x434, 0x43B, 0x44F, 0x20,
     0x43F, 0x43E, 0x442, 0x435, 0x43D, 0x446, 0x438, 0x430, 0x43B, 0x44C, 0x43D, 0x43E, 0x433,
     0x43E, 0x20, 0x43A, 0x43B, 0x438, 0x435, 0x43D, 0x442, 0x430, 0x20, 0x438, 0x20, 0x43C,
     0x43E, 0x442, 0x438, 0x432, 0x438, 0x440, 0x443, 0x44E, 0x442, 0x20, 0x435, 0x433, 0x43E,
     0x20, 0x43F, 0x435, 0x440, 0x435, 0x439, 0x442, 0x438, 0x20, 0x43D, 0x430, 0x20, 0x441,
     0x430, 0x439, 0x442, 0x2E]"

definition informational_instruction :: jstring where
  "informational_instruction =
    [0x422, 0x44B, 0x20, 0x2014] @
    ascii '' SEO-'' @
    [0x44D, 0x43A, 0x441, 0x43F, 0x435, 0x440, 0x442, 0x2E, 0x20, 0x422, 0x432, 0x43E, 0x44F,
     0x20, 0x437, 0x430, 0x434, 0x430, 0x447, 0x430, 0x20, 0x2014, 0x20, 0x441, 0x43E, 0x437,
     0x434, 0x430, 0x432, 0x430, 0x442, 0x44C, 0x20, 0x43A, 0x430, 0x447, 0x435, 0x441, 0x442,
     0x432, 0x435, 0x43D, 0x43D, 0x44B, 0x435, 0x20, 0x438, 0x20, 0x438, 0x43D, 0x444, 0x43E,
     0x440, 0x43C, 0x430, 0x442, 0x438, 0x432, 0x43D, 0x44B, 0x435] @
    ascii '' SEO-'' @
    [0x434, 0x430, 0x43D, 0x43D, 0x44B, 0x435, 0x20, 0x434, 0x43B, 0x44F, 0x20, 0x438, 0x43D,
     0x444, 0x43E, 0x440, 0x43C, 0x430, 0x446, 0x438, 0x43E, 0x43D, 0x43D, 0x44B, 0x445, 0x20,
     0x441, 0x442, 0x440, 0x430, 0x43D, 0x438, 0x446, 0x20, 0x441, 0x430, 0x439, 0x442, 0x430,
     0x20, 0x43C, 0x435, 0x434, 0x438, 0x446, 0x438, 0x43D, 0x441, 0x43A, 0x43E, 0x439, 0x20,
     0x43A, 0x43B, 0x438, 0x43D, 0x438, 0x43A, 0x438, 0x20, 0x28, 0x43E, 0x43F, 0x438, 0x441,
     0x430, 0x43D, 0x438, 0x435, 0x20, 0x437, 0x430, 0x431, 0x43E, 0x43B, 0x435, 0x432, 0x430,
     0x43D, 0x438, 0x439, 0x20, 0x438, 0x20, 0x441, 0x442, 0x430, 0x442, 0x44C, 0x438, 0x29,
     0x2E, 0x20, 0x412, 0x43C, 0x435, 0x441, 0x442, 0x43E, 0x20, 0x43D, 0x430, 0x437, 0x432,
     0x430, 0x43D, 0x438, 0x44F, 0x20, 0x43A, 0x43E, 0x43D, 0x43A, 0x440, 0x435, 0x442, 0x43D,
     0x43E, 0x439, 0x20, 0x43A, 0x43B, 0x438, 0x43D, 0x438, 0x43A, 0x438, 0x20, 0x438, 0x441,
     0x43F, 0x43E, 0x43B, 0x44C, 0x437, 0x443, 0x439, 0x20, 0x441, 0x43B, 0x43E, 0x432, 0x43E,
     0x20, 0x27, 0x43A, 0x43B, 0x438, 0x43D, 0x438, 0x43A, 0x430, 0x27, 0x20, 0x28, 0x441,
     0x20, 0x43C, 0x430, 0x43B, 0x435, 0x43D, 0x44C, 0x43A, 0x43E, 0x439, 0x20, 0x431, 0x443,
     0x43A, 0x432, 0x44B, 0x2C, 0x20, 0x435, 0x441, 0x43B, 0x438, 0x20, 0x44D, 0x442, 0x43E,
     0x20, 0x43D, 0x435, 0x20, 0x43D, 0x430, 0x447, 0x430, 0x43B, 0x43E, 0x20, 0x43F, 0x440,
     0x435, 0x434, 0x43B, 0x43E, 0x436, 0x435, 0x43D, 0x438, 0x44F, 0x29, 0x2E, 0x20, 0x424,
     0x43E, 0x43A, 0x443, 0x441, 0x438, 0x440, 0x443, 0x439, 0x441, 0x44F, 0x20, 0x43D, 0x430,
     0x20, 0x43F, 0x43E, 0x43B, 0x44C, 0x437, 0x435, 0x20, 0x434, 0x43B, 0x44F, 0x20, 0x447,
     0x438, 0x442, 0x430, 0x442, 0x435, 0x43B, 0x44F, 0x2C, 0x20, 0x44D, 0x43A, 0x441, 0x43F,
     0x435, 0x440, 0x442, 0x43D, 0x43E, 0x441, 0x442, 0x438, 0x20, 0x438, 0x20, 0x43F, 0x43E,
     0x43B, 0x43D, 0x43E, 0x442, 0x435, 0x20, 0x438, 0x43D, 0x444, 0x43E, 0x440, 0x43C, 0x430,
     0x446, 0x438, 0x438, 0x2E, 0x20, 0x418, 0x437, 0x431, 0x435, 0x433, 0x430, 0x439, 0x20,
     0x43F, 0x440, 0x44F, 0x43C, 0x44B, 0x445, 0x20, 0x43F, 0x440, 0x43E, 0x434, 0x430, 0x436,
     0x20, 0x438, 0x20, 0x430, 0x433, 0x440, 0x435, 0x441, 0x441, 0x438, 0x432, 0x43D, 0x44B,
     0x445, 0x20, 0x43F, 0x440, 0x438, 0x437, 0x44B, 0x432, 0x43E, 0x432, 0x20, 0x43A, 0x20,
     0x434, 0x435, 0x439, 0x441, 0x442, 0x432, 0x438, 0x44E, 0x2E, 0x20, 0x415, 0x441, 0x43B,
     0x438, 0x20, 0x443, 0x43F, 0x43E, 0x43C, 0x438, 0x43D, 0x430, 0x435, 0x448, 0x44C, 0x20,
     0x43B, 0x435, 0x447, 0x435, 0x43D, 0x438, 0x435, 0x2C, 0x20, 0x43C, 0x43E, 0x436, 0x435,
     0x448, 0x44C, 0x20, 0x443, 0x43C, 0x435, 0x441, 0x442, 0x43D, 0x43E, 0x20, 0x438, 0x441,
     0x43F, 0x43E, 0x43B, 0x44C, 0x437, 0x43E, 0x432, 0x430, 0x442, 0x44C, 0x20, 0x441, 0x43B,
     0x43E, 0x432, 0x43E, 0x20, 0x27, 0x43F, 0x43B, 0x430, 0x442, 0x43D, 0x43E, 0x27, 0x2C,
     0x20, 0x447, 0x442, 0x43E, 0x431, 0x44B, 0x20, 0x43E, 0x431, 0x43E, 0x437, 0x43D, 0x430,
     0x447, 0x438, 0x442, 0x44C, 0x2C, 0x20, 0x447, 0x442, 0x43E, 0x20, 0x443, 0x441, 0x43B,
     0x443, 0x433, 0x438, 0x20, 0x43A, 0x43B, 0x438, 0x43D, 0x438, 0x43A, 0x438, 0x20, 0x44F,
     0x432, 0x43B, 0x44F, 0x44E, 0x442, 0x441, 0x44F, 0x20, 0x43F, 0x43B, 0x430, 0x442, 0x43D,
     0x44B, 0x43C, 0x438, 0x2E, 0x20, 0x413, 0x43B, 0x430, 0x432, 0x43D, 0x430, 0x44F, 0x20,
     0x446, 0x435, 0x43B, 0x44C, 0x20, 0x2014, 0x20, 0x43F, 0x440, 0x435, 0x434, 0x43E, 0x441,
     0x442, 0x430, 0x432, 0x438, 0x442, 0x44C, 0x20, 0x43F, 0x43E, 0x43B, 0x44C, 0x437, 0x43E,
     0x432, 0x430, 0x442, 0x435, 0x43B, 0x44E, 0x20, 0x43F, 0x43E, 0x43B, 0x435, 0x437, 0x43D,
     0x44B, 0x439, 0x20, 0x43A, 0x43E, 0x43D, 0x442, 0x435, 0x43D, 0x442, 0x20, 0x438, 0x20,
     0x43F, 0x43E, 0x43A, 0x430, 0x437, 0x430, 0x442, 0x44C, 0x20, 0x44D, 0x43A, 0x441, 0x43F,
     0x435, 0x440, 0x442, 0x438, 0x437, 0x443, 0x20, 0x43A, 0x43B, 0x438, 0x43D, 0x438, 0x43A,
     0x438] @
    ascii ''. Title '' @
    [0x438] @
    ascii '' Description '' @
    [0x434, 0x43E, 0x43B, 0x436, 0x43D, 0x44B, 0x20, 0x431, 0x44B, 0x442, 0x44C, 0x20, 0x438,
     0x43D, 0x444, 0x43E, 0x440, 0x43C, 0x430, 0x442, 0x438, 0x432, 0x43D, 0x44B, 0x43C, 0x438,
     0x20, 0x438, 0x20, 0x432, 0x44B, 0x437, 0x44B, 0x432, 0x430, 0x44E, 0x442, 0x20, 0x434,
     0x43E, 0x432, 0x435, 0x440, 0x438, 0x435, 0x2E]"

definition commercialTypes :: "jstring list" where
  "commercialTypes = [napravlenie, usluga]"

definition selected_instruction :: "jstring \<Rightarrow> jstring" where
  "selected_instruction articleType =
     (if articleType \<in> set commercialTypes then commercial_instruction
      else informational_instruction)"

text \<open>
  The prompt of line 91, "Sgeneriruy SEO-dannye dlya stranitsy tipa '...' s zagolovkom
  '...'.", and the request of lines 93 to 101 (the response schema is a constant and is
  not recorded).
\<close>

definition contents_part1 :: jstring where
  "contents_part1 =
    [0x421, 0x433, 0x435, 0x43D, 0x435, 0x440, 0x438, 0x440, 0x443, 0x439] @
    ascii '' SEO-'' @
    [0x434, 0x430, 0x43D, 0x43D, 0x44B, 0x435, 0x20, 0x434, 0x43B, 0x44F, 0x20, 0x441, 0x442,
     0x440, 0x430, 0x43D, 0x438, 0x446, 0x44B, 0x20, 0x442, 0x438, 0x43F, 0x430, 0x20, 0x27]"

definition contents_part2 :: jstring where
  "contents_part2 =
    [0x27, 0x20, 0x441, 0x20, 0x437, 0x430, 0x433, 0x43E, 0x43B, 0x43E, 0x432, 0x43A, 0x43E,
     0x43C, 0x20, 0x27]"

definition contents_part3 :: jstring where
  "contents_part3 =
    [0x27, 0x2E]"

definition generation_request :: "jstring \<Rightarrow> jstring \<Rightarrow> request" where
  "generation_request articleTitle articleType =
     \<lparr>model = ascii ''gemini-2.5-flash'',
      contents = contents_part1 @ articleType @ contents_part2 @ articleTitle @ contents_part3,
      systemInstruction = selected_instruction articleType,
      responseMimeType = ascii ''application/json''\<rparr>"

text \<open>
  What the awaited call and \<open>JSON.parse(response.text)\<close> come to, both outside this
  program: the call throws or its promise is rejected, the text is no JSON and
  \<open>JSON.parse\<close> raises a SyntaxError with the given message, or it returns a value.
\<close>

datatype outcome =
    Rejected thrown
  | Unparsable jstring
  | Parsed jsval

text \<open>
  The failure message of line 107: "Proizoshla oshibka pri generatsii dannykh.
  Pozhaluista, poprobuyte snova.", then the error's message in italics.
\<close>

definition failure_part1 :: jstring where
  "failure_part1 =
    [0x3C, 0x70, 0x3E, 0x41F, 0x440, 0x43E, 0x438, 0x437, 0x43E, 0x448, 0x43B, 0x430, 0x20,
     0x43E, 0x448, 0x438, 0x431, 0x43A, 0x430, 0x20, 0x43F, 0x440, 0x438, 0x20, 0x433, 0x435,
     0x43D, 0x435, 0x440, 0x430, 0x446, 0x438, 0x438, 0x20, 0x434, 0x430, 0x43D, 0x43D, 0x44B,
     0x445, 0x2E, 0x20, 0x41F, 0x43E, 0x436, 0x430, 0x43B, 0x443, 0x439, 0x441, 0x442, 0x430,
     0x2C, 0x20, 0x43F, 0x43E, 0x43F, 0x440, 0x43E, 0x431, 0x443, 0x439, 0x442, 0x435, 0x20,
     0x441, 0x43D, 0x43E, 0x432, 0x430] @
    ascii ''.</p><p><i>''"

definition failure_part2 :: jstring where
  "failure_part2 =
    ascii ''</i></p>''"

definition failure_html :: "jstring \<Rightarrow> jstring" where
  "failure_html message = failure_part1 @ message @ failure_part2"

definition acquire_loading :: "page \<Rightarrow> page" where
  "acquire_loading st =
     st\<lparr>generateButton_disabled := True,
        loadingSpinner_hidden := False,
        resultsContainer_hidden := True,
        resultsContainer_innerHTML := [],
        copy_buttons := [],
        generation := Suc (generation st)\<rparr>"

definition try_block :: "engine \<Rightarrow> jstring \<Rightarrow> outcome \<Rightarrow> page \<Rightarrow> thrown + page" where
  "try_block eng articleType result st =
     (case result of
        Rejected error \<Rightarrow> Inl error
      | Unparsable m \<Rightarrow> Inl (SyntaxError m)
      | Parsed seoData \<Rightarrow>
          (case displayResults eng seoData articleType st of
             Inl e \<Rightarrow> Inl (TypeError e)
           | Inr st' \<Rightarrow> Inr st'))"

text \<open>
  The \<open>catch\<close> block. Reading \<open>error.message\<close> can raise in its turn (the value thrown
  was \<open>null\<close> or \<open>undefined\<close>); that exception leaves the handler after \<open>finally\<close>.
\<close>

definition catch_block :: "engine \<Rightarrow> thrown \<Rightarrow> page \<Rightarrow> page \<times> thrown option" where
  "catch_block eng error st =
     (let st1 = st\<lparr>console := console st @ [error]\<rparr> in
      case message_text eng error of
        Inl e \<Rightarrow> (st1, Some (TypeError e))
      | Inr m \<Rightarrow>
          (st1\<lparr>resultsContainer_innerHTML := failure_html m,
               copy_buttons := [],
               generation := Suc (generation st1)\<rparr>, None))"

definition finally_block :: "page \<Rightarrow> page" where
  "finally_block st =
     st\<lparr>generateButton_disabled := False,
        loadingSpinner_hidden := True,
        resultsContainer_hidden := False\<rparr>"

text \<open>
  The listener of lines 63 to 114, from the submit event to the end of \<open>finally\<close>, with
  the outcome of the awaited call as an argument. It returns the page and the exception
  that leaves the handler, if any.
\<close>

definition submit ::
  "engine \<Rightarrow> jstring \<Rightarrow> jstring \<Rightarrow> outcome \<Rightarrow> page \<Rightarrow> page \<times> thrown option" where
  "submit eng articleTitle articleType result st =
     (if trim articleTitle = [] then (st, None)
      else
        (let st1 = acquire_loading st;
             st2 = st1\<lparr>requests :=
                      requests st1 @ [generation_request articleTitle articleType]\<rparr>;
             (st3, uncaught) =
               (case try_block eng articleType result st2 of
                  Inr st' \<Rightarrow> (st', None)
                | Inl error \<Rightarrow> catch_block eng error st2)
         in (finally_block st3, uncaught)))"

section \<open>A session\<close>

text \<open>
  The events of a session after startup, and the listener each one runs.
\<close>

datatype event =
    Submit_Form jstring jstring outcome
  | Click_Copy nat bool
  | Timer_Fires nat

definition listener :: "engine \<Rightarrow> event \<Rightarrow> page \<Rightarrow> page" where
  "listener eng ev st =
     (case ev of
        Submit_Form articleTitle articleType result \<Rightarrow>
          fst (submit eng articleTitle articleType result st)
      | Click_Copy i granted \<Rightarrow> click_copy i granted st
      | Timer_Fires n \<Rightarrow> timer_fires n st)"

text \<open>
  A sequence of events delivered to the listeners, and the page after startup and such a
  sequence: when the module ended with an exception no listener was registered, and the
  events find the page as it is.
\<close>

definition listeners_run :: "engine \<Rightarrow> event list \<Rightarrow> page \<Rightarrow> page" where
  "listeners_run eng evs st = foldl (\<lambda>s ev. listener eng ev s) st evs"

definition page_after :: "engine \<Rightarrow> jstring option \<Rightarrow> event list \<Rightarrow> page \<Rightarrow> page" where
  "page_after eng API_KEY evs st =
     (case startup eng API_KEY st of
        (st', None) \<Rightarrow> listeners_run eng evs st'
      | (st', Some error) \<Rightarrow> st')"

section \<open>Sample values\<close>

text \<open>
  An engine with the wording of V8 and of the client library, and a page as it is before
  the script runs, for evaluating the definitions on concrete inputs.
\<close>

definition sample_engine :: engine where
  "sample_engine =
     \<lparr>type_error_message = (\<lambda>e. case e of
          Nullish_Property v key \<Rightarrow>
            ascii ''Cannot read properties of '' @
            (if v = JNull then ascii ''null'' else ascii ''undefined'') @
            ascii '' (reading '' @ [0x27] @ key @ [0x27] @ ascii '')''
        | Not_Callable v key \<Rightarrow> ascii ''content.'' @ key @ ascii '' is not a function''
        | No_Primitive v \<Rightarrow> ascii ''Cannot convert object to primitive value''),
      native_source = (\<lambda>f.
        ascii ''function '' @ (if f = ascii ''constructor'' then ascii ''Object'' else f) @
        ascii ''() { [native code] }''),
      missing_key_message = ascii ''An API Key must be set when running in a browser''\<rparr>"

definition sample_page :: page where
  "sample_page =
     \<lparr>apiKeyError_innerHTML = [],
      apiKeyError_hidden = True,
      formFieldset_disabled = False,
      generateButton_disabled = False,
      loadingSpinner_hidden = True,
      resultsContainer_hidden = True,
      resultsContainer_innerHTML = [],
      copy_buttons = [],
      generation = 0,
      timers = [],
      requests = [],
      console = [],
      clipboard = []\<rparr>"

text \<open>A payload with its four fields, the title and the keywords being parameters.\<close>

definition sample_result :: "jstring \<Rightarrow> jstring \<Rightarrow> jsval" where
  "sample_result t k =
     JObj [(ascii ''url'', JStr (ascii ''lechenie-migreni'')),
           (ascii ''title'', JStr t),
           (ascii ''description'', JStr (ascii ''d'')),
           (ascii ''keywords'', JStr k)]"

section \<open>Sequencing\<close>

lemma and_then_Inl: "and_then (Inl e) f = Inl e"
  by (simp add: and_then_def)

lemma and_then_Inr: "and_then (Inr x) f = f x"
  by (simp add: and_then_def)

section \<open>Properties of the escaping\<close>

lemma replace_all_Nil: "replace_all c r [] = []"
  by (simp add: replace_all_def)

lemma replace_all_append:
  "replace_all c r (xs @ ys) = replace_all c r xs @ replace_all c r ys"
  by (simp add: replace_all_def)

lemma replace_all_Cons:
  "replace_all c r (x # xs) = (if x = c then r else [x]) @ replace_all c r xs"
  by (simp add: replace_all_def)

lemma escapedContent_Nil: "escapedContent [] = []"
  by (simp add: escapedContent_def replace_all_Nil)

lemma escapedContent_Cons:
  "escapedContent (c # s) = reserved_reference c @ escapedContent s"
  by (simp add: escapedContent_def reserved_reference_def replace_all_Cons
      replace_all_append replace_all_Nil ascii_def)

text \<open>
  The five passes together are the character-wise substitution \<open>reserved_reference\<close>.
\<close>

lemma escapedContent_reserved_only:
  "escapedContent s = concat (map reserved_reference s)"
  by (induction s) (simp_all add: escapedContent_Nil escapedContent_Cons)


section \<open>The attribute read back\<close>

lemma normalize_newlines_Cons:
  "normalize_newlines (c # s) =
     (if c = 0x0D then
        0x0A # normalize_newlines (case s of [] \<Rightarrow> [] | d # t \<Rightarrow> if d = 0x0A then t else s)
      else c # normalize_newlines s)"
  by (cases s) simp_all

lemma normalize_newlines_append:
  "0x0D \<notin> set r \<Longrightarrow> normalize_newlines (r @ t) = r @ normalize_newlines t"
  by (induction r) (simp_all add: normalize_newlines_Cons)

lemma normalize_newlines_id: "0x0D \<notin> set s \<Longrightarrow> normalize_newlines s = s"
  using normalize_newlines_append [of s "[]"] by simp

lemma reserved_reference_no_CR: "c \<noteq> 0x0D \<Longrightarrow> 0x0D \<notin> set (reserved_reference c)"
  by (simp add: reserved_reference_def ascii_def)

lemma reserved_reference_head:
  "\<exists>x xs. reserved_reference c = x # xs \<and> (x = 0x0A \<longleftrightarrow> c = 0x0A)"
  by (simp add: reserved_reference_def ascii_def)

lemma reserved_reference_CR: "reserved_reference 0x0D = [0x0D]"
  by (simp add: reserved_reference_def)

lemma reserved_reference_LF: "reserved_reference 0x0A = [0x0A]"
  by (simp add: reserved_reference_def)

lemma normalize_newlines_escapedContent:
  "normalize_newlines (escapedContent s) = escapedContent (normalize_newlines s)"
proof (induction s rule: normalize_newlines.induct)
  case 1
  show ?case by (simp add: escapedContent_Nil)
next
  case (2 c)
  show ?case
  proof (cases "c = 0x0D")
    case True
    then show ?thesis
      by (simp add: escapedContent_Cons escapedContent_Nil reserved_reference_def)
  next
    case False
    then show ?thesis
      using normalize_newlines_id [OF reserved_reference_no_CR [OF False]]
      by (simp add: escapedContent_Cons escapedContent_Nil)
  qed
next
  case (3 c d s)
  show ?case
  proof (cases "c = 0x0D")
    case False
    then show ?thesis
      using 3 normalize_newlines_append [OF reserved_reference_no_CR [OF False]]
      by (simp add: escapedContent_Cons)
  next
    case True
    note CR = this
    show ?thesis
    proof (cases "d = 0x0A")
      case True
      show ?thesis
        using 3 CR True
        by (simp add: escapedContent_Cons reserved_reference_CR reserved_reference_LF)
    next
      case False
      obtain x xs where x: "reserved_reference d = x # xs" "x \<noteq> 0x0A"
        using reserved_reference_head [of d] False by auto
      show ?thesis
        using 3 CR False x
        by (simp add: escapedContent_Cons reserved_reference_CR reserved_reference_LF)
    qed
  qed
qed

lemma attribute_value_escapedContent:
  "attribute_value (escapedContent s) = map (\<lambda>c. if c = 0 then 0xFFFD else c) s"
proof (induction s)
  case Nil
  show ?case by (simp add: escapedContent_Nil)
next
  case (Cons c s)
  consider "c = 0x26" | "c = 0x3C" | "c = 0x3E" | "c = 0x22" | "c = 0x27"
    | "c \<notin> {0x26, 0x3C, 0x3E, 0x22, 0x27}" by auto
  then show ?case
  proof cases
    case 6
    then show ?thesis
      using Cons by (simp add: escapedContent_Cons reserved_reference_def)
  qed (simp_all add: Cons escapedContent_Cons reserved_reference_def ascii_def)
qed

lemma dataset_copycontent_escapedContent:
  "dataset_copycontent (escapedContent s) =
     map (\<lambda>c. if c = 0 then 0xFFFD else c) (normalize_newlines s)"
  by (simp add: dataset_copycontent_def normalize_newlines_escapedContent
      attribute_value_escapedContent)

lemma dataset_copycontent_roundtrip:
  assumes "0x0D \<notin> set s" and "0 \<notin> set s"
  shows "dataset_copycontent (escapedContent s) = s"
proof -
  have "map (\<lambda>c. if c = 0 then 0xFFFD else c) s = s"
    using assms(2) by (induction s) auto
  then show ?thesis
    using assms(1) by (simp add: dataset_copycontent_escapedContent normalize_newlines_id)
qed


section \<open>Rendering and copying\<close>

lemma displayResults_valid:
  assumes "map_of kvs (ascii ''url'') = Some (JStr u)"
    and "map_of kvs (ascii ''title'') = Some (JStr t)"
    and "map_of kvs (ascii ''description'') = Some (JStr d)"
    and "map_of kvs (ascii ''keywords'') = Some (JStr k)"
  shows "\<exists>st'. displayResults eng (JObj kvs) articleType st = Inr st' \<and>
           map copycontent (copy_buttons st') =
             map (\<lambda>c. dataset_copycontent (escapedContent c))
               [prefix_text eng (urlPrefixes_get articleType) @ u, t, d, k] \<and>
           map textContent (copy_buttons st') = [label_copy, label_copy, label_copy, label_copy]"
  using assms
  by (simp add: displayResults_def fullUrl_def getProperty_def createResultItem_def
      replace_receiver_def and_then_Inr rendered_button_def)

lemma index_below_four: "i < 4 \<Longrightarrow> i = 0 \<or> i = Suc 0 \<or> i = 2 \<or> i = 3" for i :: nat
  by arith

lemma nth_map_copycontent:
  "i < length bs \<Longrightarrow> copycontent (bs ! i) = map copycontent bs ! i"
  by simp

lemma createResultItem_string:
  "createResultItem label (JStr s) =
     Inr \<lparr>markup = item_markup label (concat (map reserved_reference s)),
          copy_attribute = concat (map reserved_reference s)\<rparr>"
  by (simp add: createResultItem_def replace_receiver_def and_then_Inr
      escapedContent_reserved_only)

text \<open>
  Claim C3. The Result Renderer escapes exactly the five reserved characters \<open>&\<close>,
  \<open><\<close>, \<open>>\<close>, the double quote and the single quote, by \<open>&amp;\<close>, \<open>&lt;\<close>,
  \<open>&gt;\<close>, \<open>&quot;\<close> and \<open>&#039;\<close>, and keeps every other code unit of the
  input in its place: the markup \<open>createResultItem\<close> returns for a string holds, in the
  attribute and in the text area, the character-wise substitution \<open>reserved_reference\<close>
  of the string, and for a payload with its four fields, each a string, the markup that
  \<open>displayResults\<close> assigns to the results container is made of the four items with
  the full URL, the title, the description and the keywords so escaped.
\<close>

theorem rendered_fields_escape_reserved_only:
  assumes "map_of kvs (ascii ''url'') = Some (JStr u)"
    and "map_of kvs (ascii ''title'') = Some (JStr t)"
    and "map_of kvs (ascii ''description'') = Some (JStr d)"
    and "map_of kvs (ascii ''keywords'') = Some (JStr k)"
  shows "escapedContent s = concat (map reserved_reference s) \<and>
         createResultItem label (JStr s) =
           Inr \<lparr>markup = item_markup label (concat (map reserved_reference s)),
                copy_attribute = concat (map reserved_reference s)\<rparr> \<and>
         (\<exists>st'. displayResults eng (JObj kvs) articleType st = Inr st' \<and>
            resultsContainer_innerHTML st' =
              ascii ''\<newline>    '' @
              item_markup (ascii ''URL'') (concat (map reserved_reference
                (prefix_text eng (urlPrefixes_get articleType) @ u))) @
              ascii ''\<newline>    '' @
              item_markup (ascii ''Title'') (concat (map reserved_reference t)) @
              ascii ''\<newline>    '' @
              item_markup (ascii ''Description'') (concat (map reserved_reference d)) @
              ascii ''\<newline>    '' @
              item_markup (ascii ''Keywords'') (concat (map reserved_reference k)) @
              ascii ''\<newline>  '')"
  using assms
  by (simp add: escapedContent_reserved_only createResultItem_string displayResults_def
      fullUrl_def getProperty_def and_then_Inr)

text \<open>
  Claim C2, amended. For a payload with its four fields, each a string: a rendered value
  (the full URL, the title, the description or the keywords) that is not empty and holds
  neither U+000D nor U+0000 is written to the clipboard as it was before the escaping,
  when its copy button is clicked and the clipboard grants the write. The escaped text
  stays in the markup.
\<close>

theorem copy_restores_rendered_value:
  assumes "map_of kvs (ascii ''url'') = Some (JStr u)"
    and "map_of kvs (ascii ''title'') = Some (JStr t)"
    and "map_of kvs (ascii ''description'') = Some (JStr d)"
    and "map_of kvs (ascii ''keywords'') = Some (JStr k)"
    and "i < 4"
    and "c = [prefix_text eng (urlPrefixes_get articleType) @ u, t, d, k] ! i"
    and "c \<noteq> []" and "0x0D \<notin> set c" and "0 \<notin> set c"
  shows "\<exists>st'. displayResults eng (JObj kvs) articleType st = Inr st' \<and>
           clipboard (click_copy i True st') = clipboard st' @ [c]"
proof -
  obtain st' where run: "displayResults eng (JObj kvs) articleType st = Inr st'"
    and contents: "map copycontent (copy_buttons st') =
        map (\<lambda>c. dataset_copycontent (escapedContent c))
          [prefix_text eng (urlPrefixes_get articleType) @ u, t, d, k]"
    using displayResults_valid [OF assms(1-4)] by blast
  have len: "length (copy_buttons st') = 4"
    using arg_cong [OF contents, of length] by simp
  have "copycontent (copy_buttons st' ! i) = dataset_copycontent (escapedContent c)"
    using assms(5,6) len contents index_below_four [OF assms(5)]
    by (auto simp: nth_map_copycontent)
  then have "copycontent (copy_buttons st' ! i) = c"
    using assms(8,9) by (simp add: dataset_copycontent_roundtrip)
  then have "clipboard (click_copy i True st') = clipboard st' @ [c]"
    using assms(5,7) len by (simp add: click_copy_def Let_def)
  with run show ?thesis by blast
qed

text \<open>
  Claim C9. For a payload with its four fields, each a string: a click on the copy
  button of a rendered value that is the empty string leaves the page as it is, whether
  the clipboard would grant a write or not. Nothing is written to the clipboard and the
  label stays; the listener acts only on non-empty content.
\<close>

theorem empty_value_is_not_copied:
  assumes "map_of kvs (ascii ''url'') = Some (JStr u)"
    and "map_of kvs (ascii ''title'') = Some (JStr t)"
    and "map_of kvs (ascii ''description'') = Some (JStr d)"
    and "map_of kvs (ascii ''keywords'') = Some (JStr k)"
    and "i < 4"
    and "[prefix_text eng (urlPrefixes_get articleType) @ u, t, d, k] ! i = []"
  shows "\<exists>st'. displayResults eng (JObj kvs) articleType st = Inr st' \<and>
           click_copy i granted st' = st'"
proof -
  obtain st' where run: "displayResults eng (JObj kvs) articleType st = Inr st'"
    and contents: "map copycontent (copy_buttons st') =
        map (\<lambda>c. dataset_copycontent (escapedContent c))
          [prefix_text eng (urlPrefixes_get articleType) @ u, t, d, k]"
    using displayResults_valid [OF assms(1-4)] by blast
  have len: "length (copy_buttons st') = 4"
    using arg_cong [OF contents, of length] by simp
  have empty: "dataset_copycontent (escapedContent []) = []"
    by (simp add: dataset_copycontent_roundtrip)
  have "copycontent (copy_buttons st' ! i) = []"
    using assms(5,6) len contents index_below_four [OF assms(5)] empty
    by (auto simp: nth_map_copycontent)
  then have "click_copy i granted st' = st'"
    by (simp add: click_copy_def Let_def)
  with run show ?thesis by blast
qed

section \<open>The paths of the submit handler\<close>

lemma displayResults_frame:
  assumes "displayResults eng data articleType st = Inr st'"
  shows "\<exists>html buttons. st' = st\<lparr>resultsContainer_innerHTML := html, copy_buttons := buttons,
           generation := Suc (generation st)\<rparr>"
  using assms by (auto simp: displayResults_def and_then_def split: sum.splits)

lemma trim_empty_iff: "trim s = [] \<longleftrightarrow> (\<forall>c\<in>set s. isWhiteSpace c)"
proof
  assume "\<forall>c\<in>set s. isWhiteSpace c"
  then have "dropWhile isWhiteSpace s = []"
    by (simp only: dropWhile_eq_Nil_conv)
  then show "trim s = []"
    by (simp only: trim_def rev.simps dropWhile.simps)
next
  assume "trim s = []"
  then have rest: "\<forall>c\<in>set (dropWhile isWhiteSpace s). isWhiteSpace c"
    by (simp add: trim_def)
  have "dropWhile isWhiteSpace s = []"
  proof (rule ccontr)
    assume nonempty: "dropWhile isWhiteSpace s \<noteq> []"
    then have "\<not> isWhiteSpace (hd (dropWhile isWhiteSpace s))"
      by (rule hd_dropWhile)
    moreover have "hd (dropWhile isWhiteSpace s) \<in> set (dropWhile isWhiteSpace s)"
      using nonempty by simp
    ultimately show False
      using rest by blast
  qed
  then show "\<forall>c\<in>set s. isWhiteSpace c"
    by (simp only: dropWhile_eq_Nil_conv)
qed






text \<open>
  Claim C6. After a submission with a non-blank title, whatever the awaited call came to
  (a value rendered, an exception of the call, of \<open>JSON.parse\<close>, of the rendering or of
  the \<open>catch\<close> block itself), the submit button is enabled, the spinner is hidden and
  the results container is shown.
\<close>

theorem loading_state_released:
  assumes "trim articleTitle \<noteq> []"
  shows "\<not> generateButton_disabled (fst (submit eng articleTitle articleType result st)) \<and>
         loadingSpinner_hidden (fst (submit eng articleTitle articleType result st)) \<and>
         \<not> resultsContainer_hidden (fst (submit eng articleTitle articleType result st))"
  using assms by (simp add: submit_def Let_def finally_block_def split: prod.splits)

text \<open>
  Claim C7. A submission whose title is empty or holds only white space returns at once:
  the page is unchanged, with its button, spinner, results container, list of requests
  and console as they were, and no exception leaves the handler.
\<close>

theorem blank_title_is_ignored:
  assumes "\<forall>c\<in>set articleTitle. isWhiteSpace c"
  shows "submit eng articleTitle articleType result st = (st, None)"
  using assms by (simp add: submit_def trim_empty_iff)

lemma try_block_requests:
  "try_block eng articleType result st = Inr st' \<Longrightarrow> requests st' = requests st"
  by (auto simp: try_block_def split: outcome.splits sum.splits dest!: displayResults_frame)

lemma catch_block_requests: "requests (fst (catch_block eng error st)) = requests st"
  by (simp add: catch_block_def Let_def split: sum.splits)

lemma submit_requests:
  assumes "trim articleTitle \<noteq> []"
  shows "requests (fst (submit eng articleTitle articleType result st)) =
           requests st @ [generation_request articleTitle articleType]"
proof -
  define st2 where "st2 = (acquire_loading st)\<lparr>requests := requests (acquire_loading st) @
      [generation_request articleTitle articleType]\<rparr>"
  have st2: "requests st2 = requests st @ [generation_request articleTitle articleType]"
    by (simp add: st2_def acquire_loading_def)
  have unfolded: "fst (submit eng articleTitle articleType result st) =
      finally_block (case try_block eng articleType result st2 of
                       Inl error \<Rightarrow> fst (catch_block eng error st2) | Inr st' \<Rightarrow> st')"
    using assms by (auto simp: submit_def Let_def st2_def split: prod.splits sum.splits)
  show ?thesis
  proof (cases "try_block eng articleType result st2")
    case (Inl error)
    then show ?thesis
      using catch_block_requests [of eng error st2] st2
      by (simp add: unfolded finally_block_def)
  next
    case (Inr st')
    then show ?thesis
      using try_block_requests [OF Inr] st2
      by (simp add: unfolded finally_block_def)
  qed
qed

lemma instructions_differ: "commercial_instruction \<noteq> informational_instruction"
  by (simp add: commercial_instruction_def informational_instruction_def ascii_def)

text \<open>
  Claim C4. A submission with a non-blank title issues one request, whose system
  instruction is the commercial one when the page type is "napravlenie" (direction) or
  "usluga" (service) and the informational one for every other page type; the two
  instructions differ.
\<close>

theorem instruction_class_by_page_type:
  assumes "trim articleTitle \<noteq> []"
  shows "(\<exists>r. requests (fst (submit eng articleTitle articleType result st)) = requests st @ [r] \<and>
            systemInstruction r =
              (if articleType = napravlenie \<or> articleType = usluga then commercial_instruction
               else informational_instruction)) \<and>
         commercial_instruction \<noteq> informational_instruction"
  using submit_requests [OF assms] instructions_differ
  by (auto simp: generation_request_def selected_instruction_def commercialTypes_def)


section \<open>The URL prefix\<close>

lemma urlPrefixes_get_proto: "urlPrefixes_get (ascii ''__proto__'') = Inherited_Prototype"
  by (simp add: urlPrefixes_get_def urlPrefixes_def napravlenie_def usluga_def zabolevanie_def
      statya_def ascii_def)

lemma urlPrefixes_get_toString:
  "urlPrefixes_get (ascii ''toString'') = Inherited_Function (ascii ''toString'')"
  by (simp add: urlPrefixes_get_def urlPrefixes_def napravlenie_def usluga_def zabolevanie_def
      statya_def object_prototype_functions_def ascii_def)

lemma fullUrl_string_slug:
  assumes "map_of kvs (ascii ''url'') = Some (JStr slug)"
  shows "fullUrl eng (JObj kvs) articleType =
           Inr (prefix_text eng (urlPrefixes_get articleType) @ slug)"
  using assms by (simp add: fullUrl_def getProperty_def and_then_Inr)

lemma fullUrl_not_inherited:
  assumes "map_of kvs (ascii ''url'') = Some (JStr slug)"
    and "articleType \<noteq> ascii ''__proto__''"
    and "articleType \<notin> set object_prototype_functions"
  shows "fullUrl eng (JObj kvs) articleType =
           Inr ((case map_of urlPrefixes articleType of Some p \<Rightarrow> p | None \<Rightarrow> []) @ slug)"
  using assms(2,3)
  by (simp add: fullUrl_string_slug [OF assms(1)] urlPrefixes_get_def prefix_text_def
      split: option.splits)

lemma fullUrl_examples:
  "fullUrl eng (JObj [(ascii ''url'', JStr (ascii ''lechenie-migreni''))]) napravlenie =
     Inr (ascii ''https://www.emcmos.ru/directions/lechenie-migreni'')"
  "fullUrl eng (JObj [(ascii ''url'', JStr (ascii ''foo''))]) (ascii ''unknown'') =
     Inr (ascii ''foo'')"
  by (simp_all add: fullUrl_string_slug urlPrefixes_get_def prefix_text_def urlPrefixes_def
      napravlenie_def usluga_def zabolevanie_def statya_def object_prototype_functions_def
      ascii_def)

text \<open>
  Claim C5. The displayed URL is the table's prefix for the page type followed by the
  slug, and the slug alone for a page type that is not in the table
  (\<open>fullUrl_not_inherited\<close>, \<open>fullUrl_examples\<close>), unless the page type names a
  property that the table inherits from \<open>Object.prototype\<close>: for the page type
  \<open>__proto__\<close> and the slug \<open>foo\<close> the URL is \<open>[object Object]foo\<close>, for
  \<open>toString\<close> it is the source text of that function followed by \<open>foo\<close>, where the
  claim asks for \<open>foo\<close>.
\<close>

theorem inherited_page_type_gets_a_prefix:
  "fullUrl eng (JObj [(ascii ''url'', JStr (ascii ''foo''))]) (ascii ''__proto__'') =
     Inr (ascii ''[object Object]foo'') \<and>
   fullUrl eng (JObj [(ascii ''url'', JStr (ascii ''foo''))]) (ascii ''toString'') =
     Inr (native_source eng (ascii ''toString'') @ ascii ''foo'')"
proof -
  have joined: "ascii ''[object Object]'' @ ascii ''foo'' = ascii ''[object Object]foo''"
    by (simp add: ascii_def)
  show ?thesis
    by (simp add: fullUrl_string_slug urlPrefixes_get_proto urlPrefixes_get_toString
        prefix_text_def joined)
qed

text \<open>
  Claim C10. The table \<open>urlPrefixes\<close> has exactly four entries, with distinct keys:
  "napravlenie" with \<open>https://www.emcmos.ru/directions/\<close>, "usluga" with
  \<open>https://www.emcmos.ru/programs_and_services/services/\<close>, "zabolevanie" with
  \<open>https://www.emcmos.ru/disease/\<close> and "stat'ya" with
  \<open>https://www.emcmos.ru/articles/\<close>, and it has no entry for any other page type.
  Yet the lookup of line 131 gives a non-empty prefix to a page type outside the table:
  for \<open>__proto__\<close>, which has no entry, the prefix is \<open>[object Object]\<close>, where the
  claim asks for the empty string.
\<close>

theorem page_type_outside_table_gets_prefix:
  "map fst urlPrefixes = [napravlenie, usluga, zabolevanie, statya] \<and>
   distinct (map fst urlPrefixes) \<and>
   map_of urlPrefixes articleType =
     (if articleType = napravlenie then Some (ascii ''https://www.emcmos.ru/directions/'')
      else if articleType = usluga
        then Some (ascii ''https://www.emcmos.ru/programs_and_services/services/'')
      else if articleType = zabolevanie then Some (ascii ''https://www.emcmos.ru/disease/'')
      else if articleType = statya then Some (ascii ''https://www.emcmos.ru/articles/'')
      else None) \<and>
   map_of urlPrefixes (ascii ''__proto__'') = None \<and>
   prefix_text eng (urlPrefixes_get (ascii ''__proto__'')) = ascii ''[object Object]'' \<and>
   prefix_text eng (urlPrefixes_get (ascii ''__proto__'')) \<noteq> []"
proof -
  have absent: "map_of urlPrefixes (ascii ''__proto__'') = None"
    by (simp add: urlPrefixes_def napravlenie_def usluga_def zabolevanie_def statya_def
        ascii_def)
  have text_nonempty: "ascii ''[object Object]'' \<noteq> []"
    by (simp add: ascii_def)
  show ?thesis
    using absent text_nonempty
    by (simp add: urlPrefixes_get_proto prefix_text_def)
      (simp add: urlPrefixes_def napravlenie_def usluga_def zabolevanie_def statya_def)
qed

section \<open>The session after startup\<close>

lemma submit_frame:
  "formFieldset_disabled (fst (submit eng articleTitle articleType result st)) =
     formFieldset_disabled st \<and>
   apiKeyError_hidden (fst (submit eng articleTitle articleType result st)) =
     apiKeyError_hidden st \<and>
   apiKeyError_innerHTML (fst (submit eng articleTitle articleType result st)) =
     apiKeyError_innerHTML st"
  by (auto simp: submit_def Let_def finally_block_def catch_block_def acquire_loading_def
      try_block_def split: prod.splits sum.splits outcome.splits dest!: displayResults_frame)

lemma click_copy_frame:
  "formFieldset_disabled (click_copy i granted st) = formFieldset_disabled st \<and>
   apiKeyError_hidden (click_copy i granted st) = apiKeyError_hidden st \<and>
   apiKeyError_innerHTML (click_copy i granted st) = apiKeyError_innerHTML st \<and>
   requests (click_copy i granted st) = requests st"
  by (simp add: click_copy_def Let_def)

lemma timer_fires_frame:
  "formFieldset_disabled (timer_fires n st) = formFieldset_disabled st \<and>
   apiKeyError_hidden (timer_fires n st) = apiKeyError_hidden st \<and>
   apiKeyError_innerHTML (timer_fires n st) = apiKeyError_innerHTML st \<and>
   requests (timer_fires n st) = requests st"
  by (simp add: timer_fires_def Let_def split: prod.splits)

lemma listener_frame:
  "formFieldset_disabled (listener eng ev st) = formFieldset_disabled st \<and>
   apiKeyError_hidden (listener eng ev st) = apiKeyError_hidden st \<and>
   apiKeyError_innerHTML (listener eng ev st) = apiKeyError_innerHTML st"
  by (cases ev) (simp_all add: listener_def submit_frame click_copy_frame timer_fires_frame)

lemma listeners_run_frame:
  "formFieldset_disabled (listeners_run eng evs st) = formFieldset_disabled st \<and>
   apiKeyError_hidden (listeners_run eng evs st) = apiKeyError_hidden st \<and>
   apiKeyError_innerHTML (listeners_run eng evs st) = apiKeyError_innerHTML st"
  unfolding listeners_run_def
  by (induction evs arbitrary: st) (simp_all add: listener_frame)

lemma startup_without_key:
  "startup eng None st = (st, Some (Error_Object (missing_key_message eng)))"
  by (simp add: startup_def GoogleGenAI_constructor_def)

lemma startup_with_key: "startup eng (Some key) st = (api_key_check (Some key) st, None)"
  by (simp add: startup_def GoogleGenAI_constructor_def)

text \<open>
  Claim C8. When the credential is \<open>undefined\<close> the constructor of line 13 raises,
  the module ends before the check of line 56, and the page stays as it was: the
  fieldset is not disabled and the configuration error is not shown, where the claim
  asks for both. When the credential is the empty string the check runs: the fieldset is
  disabled and the panel shows the fixed text, before any event (\<open>evs = []\<close>) and after
  every sequence of events, since no listener touches either of them.
\<close>

theorem undefined_credential_skips_check:
  "startup eng None st = (st, Some (Error_Object (missing_key_message eng))) \<and>
   page_after eng None evs st = st \<and>
   formFieldset_disabled (page_after eng (Some []) evs st) \<and>
   \<not> apiKeyError_hidden (page_after eng (Some []) evs st) \<and>
   apiKeyError_innerHTML (page_after eng (Some []) evs st) = config_error_html"
  by (simp add: page_after_def startup_without_key startup_with_key listeners_run_frame
      api_key_check_def)

section \<open>Concrete instances\<close>

lemma trim_x: "trim (ascii ''x'') \<noteq> []"
  by (simp add: trim_def isWhiteSpace_def ascii_def)

lemma submit_sample_result:
  "map copycontent (copy_buttons (fst (submit sample_engine (ascii ''x'') statya
      (Parsed (sample_result t k)) sample_page))) =
     map (\<lambda>c. dataset_copycontent (escapedContent c))
       [ascii ''https://www.emcmos.ru/articles/lechenie-migreni'', t, ascii ''d'', k] \<and>
   clipboard (fst (submit sample_engine (ascii ''x'') statya
      (Parsed (sample_result t k)) sample_page)) = []"
  by (simp add: submit_def trim_def isWhiteSpace_def Let_def acquire_loading_def
      try_block_def displayResults_def fullUrl_def getProperty_def and_then_def
      createResultItem_def replace_receiver_def rendered_button_def finally_block_def
      urlPrefixes_get_def urlPrefixes_def napravlenie_def usluga_def zabolevanie_def
      statya_def prefix_text_def sample_page_def sample_result_def ascii_def)

text \<open>
  The title \<open>a<b\<close> is rendered as \<open>a&lt;b\<close> and copied as \<open>a<b\<close>.
\<close>

theorem copy_restores_rendered_value_witness:
  "\<exists>st'. displayResults sample_engine
           (JObj [(ascii ''url'', JStr (ascii ''lechenie-migreni'')),
                  (ascii ''title'', JStr (ascii ''a<b'')),
                  (ascii ''description'', JStr (ascii ''d'')),
                  (ascii ''keywords'', JStr (ascii ''k''))]) statya sample_page = Inr st' \<and>
         clipboard (click_copy 1 True st') = clipboard st' @ [ascii ''a<b'']"
  by (rule copy_restores_rendered_value
      [where u = "ascii ''lechenie-migreni''" and t = "ascii ''a<b''" and d = "ascii ''d''"
         and k = "ascii ''k''" and eng = sample_engine])
    (simp_all add: ascii_def)

text \<open>
  Where the copy does not bring the rendered value back: the empty keywords are not
  written at all, the title \<open>a\<close>, CR, \<open>b\<close> is written with LF for CR, and nothing
  is written when the clipboard refuses.
\<close>

theorem copy_does_not_always_restore:
  "clipboard (click_copy 3 True (fst (submit sample_engine (ascii ''x'') statya
      (Parsed (sample_result (ascii ''t'') [])) sample_page))) = [] \<and>
   clipboard (click_copy 1 True (fst (submit sample_engine (ascii ''x'') statya
      (Parsed (sample_result [0x61, 0x0D, 0x62] (ascii ''k''))) sample_page))) =
     [[0x61, 0x0A, 0x62]] \<and>
   clipboard (click_copy 1 False (fst (submit sample_engine (ascii ''x'') statya
      (Parsed (sample_result (ascii ''t'') (ascii ''k''))) sample_page))) = []"
proof -
  have lengths: "length (copy_buttons (fst (submit sample_engine (ascii ''x'') statya
      (Parsed (sample_result t k)) sample_page))) = 4" for t k
    using arg_cong [OF conjunct1 [OF submit_sample_result [of t k]], of length] by simp
  have nth: "copycontent (copy_buttons (fst (submit sample_engine (ascii ''x'') statya
      (Parsed (sample_result t k)) sample_page)) ! i) =
      map (\<lambda>c. dataset_copycontent (escapedContent c))
        [ascii ''https://www.emcmos.ru/articles/lechenie-migreni'', t, ascii ''d'', k] ! i"
    if "i < 4" for t k i
    using that lengths [of t k] conjunct1 [OF submit_sample_result [of t k]]
    by (metis nth_map)
  have empty: "dataset_copycontent (escapedContent []) = []"
    by (simp add: dataset_copycontent_roundtrip)
  have cr: "dataset_copycontent (escapedContent [0x61, 0x0D, 0x62]) = [0x61, 0x0A, 0x62]"
    by (simp add: dataset_copycontent_escapedContent)
  show ?thesis
    using nth [of 3 "ascii ''t''" "[]"] nth [of 1 "[0x61, 0x0D, 0x62]" "ascii ''k''"]
      lengths submit_sample_result
    by (simp add: click_copy_def Let_def empty cr)
qed

text \<open>
  With empty keywords a click on the fourth button changes nothing.
\<close>

theorem empty_value_is_not_copied_witness:
  "\<exists>st'. displayResults sample_engine
           (JObj [(ascii ''url'', JStr (ascii ''lechenie-migreni'')),
                  (ascii ''title'', JStr (ascii ''t'')),
                  (ascii ''description'', JStr (ascii ''d'')),
                  (ascii ''keywords'', JStr [])]) statya sample_page = Inr st' \<and>
         click_copy 3 True st' = st'"
  by (rule empty_value_is_not_copied
      [where u = "ascii ''lechenie-migreni''" and t = "ascii ''t''" and d = "ascii ''d''"
         and k = "[]" and eng = sample_engine])
    (simp_all add: ascii_def)

text \<open>
  The loading state is released also when the promise was rejected with \<open>null\<close> and
  the \<open>catch\<close> block raised in its turn.
\<close>

theorem loading_state_released_witness:
  "\<not> generateButton_disabled (fst (submit sample_engine (ascii ''x'') statya
       (Rejected (Thrown_Value JNull)) sample_page)) \<and>
   loadingSpinner_hidden (fst (submit sample_engine (ascii ''x'') statya
       (Rejected (Thrown_Value JNull)) sample_page)) \<and>
   \<not> resultsContainer_hidden (fst (submit sample_engine (ascii ''x'') statya
       (Rejected (Thrown_Value JNull)) sample_page))"
  by (rule loading_state_released [OF trim_x])

text \<open>
  A title of a space, a line feed and a no-break space is ignored.
\<close>

theorem blank_title_is_ignored_witness:
  "submit sample_engine [0x20, 0x0A, 0xA0] statya (Unparsable []) sample_page =
     (sample_page, None)"
  by (rule blank_title_is_ignored) (simp add: isWhiteSpace_def)

text \<open>
  The page type "usluga" gets the commercial instruction.
\<close>

theorem instruction_class_by_page_type_witness:
  "(\<exists>r. requests (fst (submit sample_engine (ascii ''x'') usluga (Unparsable []) sample_page)) =
          requests sample_page @ [r] \<and>
        systemInstruction r =
          (if usluga = napravlenie \<or> usluga = usluga then commercial_instruction
           else informational_instruction)) \<and>
   commercial_instruction \<noteq> informational_instruction"
  by (rule instruction_class_by_page_type [OF trim_x])

text \<open>
  A payload whose title is \<open>a<b\<close>: the markup holds \<open>a&lt;b\<close>.
\<close>

theorem rendered_fields_escape_reserved_only_witness:
  "escapedContent (ascii ''a<b'') = concat (map reserved_reference (ascii ''a<b'')) \<and>
   createResultItem (ascii ''Title'') (JStr (ascii ''a<b'')) =
     Inr \<lparr>markup = item_markup (ascii ''Title'')
            (concat (map reserved_reference (ascii ''a<b''))),
          copy_attribute = concat (map reserved_reference (ascii ''a<b''))\<rparr> \<and>
   (\<exists>st'. displayResults sample_engine (sample_result (ascii ''a<b'') (ascii ''k'')) statya
            sample_page = Inr st' \<and>
      resultsContainer_innerHTML st' =
        ascii ''\<newline>    '' @
        item_markup (ascii ''URL'') (concat (map reserved_reference
          (prefix_text sample_engine (urlPrefixes_get statya) @ ascii ''lechenie-migreni''))) @
        ascii ''\<newline>    '' @
        item_markup (ascii ''Title'') (concat (map reserved_reference (ascii ''a<b''))) @
        ascii ''\<newline>    '' @
        item_markup (ascii ''Description'') (concat (map reserved_reference (ascii ''d''))) @
        ascii ''\<newline>    '' @
        item_markup (ascii ''Keywords'') (concat (map reserved_reference (ascii ''k''))) @
        ascii ''\<newline>  '') \<and>
   concat (map reserved_reference (ascii ''a<b'')) = ascii ''a&lt;b''"
proof -
  have escaped: "concat (map reserved_reference (ascii ''a<b'')) = ascii ''a&lt;b''"
    by (simp add: reserved_reference_def ascii_def)
  have fields:
    "map_of [(ascii ''url'', JStr (ascii ''lechenie-migreni'')),
             (ascii ''title'', JStr (ascii ''a<b'')),
             (ascii ''description'', JStr (ascii ''d'')),
             (ascii ''keywords'', JStr (ascii ''k''))] (ascii ''url'') =
       Some (JStr (ascii ''lechenie-migreni''))"
    "map_of [(ascii ''url'', JStr (ascii ''lechenie-migreni'')),
             (ascii ''title'', JStr (ascii ''a<b'')),
             (ascii ''description'', JStr (ascii ''d'')),
             (ascii ''keywords'', JStr (ascii ''k''))] (ascii ''title'') =
       Some (JStr (ascii ''a<b''))"
    "map_of [(ascii ''url'', JStr (ascii ''lechenie-migreni'')),
             (ascii ''title'', JStr (ascii ''a<b'')),
             (ascii ''description'', JStr (ascii ''d'')),
             (ascii ''keywords'', JStr (ascii ''k''))] (ascii ''description'') =
       Some (JStr (ascii ''d''))"
    "map_of [(ascii ''url'', JStr (ascii ''lechenie-migreni'')),
             (ascii ''title'', JStr (ascii ''a<b'')),
             (ascii ''description'', JStr (ascii ''d'')),
             (ascii ''keywords'', JStr (ascii ''k''))] (ascii ''keywords'') =
       Some (JStr (ascii ''k''))"
    by (simp_all add: ascii_def)
  show ?thesis
    using rendered_fields_escape_reserved_only [OF fields, of "ascii ''a<b''"
        "ascii ''Title''" sample_engine statya sample_page] escaped
    unfolding sample_result_def by blast
qed



end
